theory Spec2Isabelle
  imports Complex_Main "HOL-Library.AList" "HOL-Library.Multiset"
begin

section \<open>UrbanPulse: the data pipeline of app.py\<close>

text \<open>
  The dashboard script app.py builds three tables: the synthetic history
  (\<open>generate_real_time_data\<close>), the exponential forecast
  (\<open>generate_prediction_data\<close>) and the scenario table \<open>df_sim\<close> of the third tab.
  The embedding below follows the script line by line.

  Conventions of the embedding.
  \<^item> A \<open>datetime\<close> is an \<open>int\<close>: a count of microseconds, the resolution of
    Python's datetime. \<open>datetime.now()\<close> is read from the clock, so the value it returns
    is a parameter \<open>now\<close> of each function that calls it. The calendar bounds of
    datetime (years 1 to 9999) are not part of the model.
  \<^item> A Python float is a \<open>real\<close>: the arithmetic is the exact one, without the rounding,
    overflow and underflow of IEEE doubles. The claims on values that are stated within
    floating-point tolerance, or that hold exactly in binary64, are settled on this
    arithmetic. The order of consecutive forecast values depends on the rounding, so
    line 37 is modelled a second time, in binary64 (\<open>predicted_values_f64\<close>).
  \<^item> Python's int is \<open>int\<close>.
  \<^item> The numbers drawn by \<open>np.random.normal\<close> come from the global generator. Its
    output is a parameter \<open>z\<close>: \<open>z i\<close> is the \<open>i\<close>-th standard normal variate the generator
    hands out from the moment of the call on. Every real number is a possible variate.
  \<^item> An exception is a value \<open>Inl e\<close> of the result.
  \<^item> The decorator \<open>st.cache_data(ttl=60)\<close> and the chart drawing of
    \<open>plot_line_chart\<close> are outside the embedding; the latter only reads its table.
\<close>

subsection \<open>Tables\<close>

type_synonym datetime = int

text \<open>\<open>timedelta(minutes=m)\<close>, in microseconds.\<close>

definition timedelta :: "int \<Rightarrow> int" where
  "timedelta minutes = minutes * 60000000"

text \<open>
  The column labels of the script:
  "Time", "Traffic Density (vehicles/min)", the PM2.5 label (it carries the unit in
  non-ASCII letters), "Predicted Value", "Simulated Traffic Density", "Simulated PM2.5".
\<close>

datatype colname =
    Time
  | Traffic_Density
  | PM2_5
  | Predicted_Value
  | Simulated_Traffic_Density
  | Simulated_PM2_5

datatype column = TimeCol "datetime list" | NumCol "real list"

text \<open>A table is the ordered list of its labelled columns, as a DataFrame built from a dict is.\<close>

type_synonym dataframe = "(colname \<times> column) list"

datatype py_error = ValueError | ZeroDivisionError | KeyError | TypeError

fun col_len :: "column \<Rightarrow> nat" where
  "col_len (TimeCol ts) = length ts"
| "col_len (NumCol xs) = length xs"

text \<open>\<open>pd.DataFrame(dict)\<close> raises ValueError unless all the columns have one length.\<close>

definition DataFrame :: "(colname \<times> column) list \<Rightarrow> py_error + dataframe" where
  "DataFrame data =
     (if list_all (\<lambda>c. col_len (snd c) = col_len (snd (hd data))) data
      then Inr data else Inl ValueError)"

text \<open>\<open>range(a, b)\<close> and \<open>np.arange(a, b)\<close> on integers: \<open>a, a + 1, ..., b - 1\<close>.\<close>

definition range_py :: "int \<Rightarrow> int \<Rightarrow> int list" where
  "range_py a b = [a..b - 1]"

subsection \<open>generate_real_time_data (app.py, lines 13 to 29)\<close>

text \<open>
  \<open>np.random.normal(loc, scale, size=n)\<close>: \<open>n\<close> variates \<open>loc + scale * z\<close>, and the
  generator moved on by \<open>n\<close>; a negative \<open>n\<close> raises ValueError.
\<close>

definition normal :: "(nat \<Rightarrow> real) \<Rightarrow> real \<Rightarrow> real \<Rightarrow> int \<Rightarrow> py_error + (real list \<times> (nat \<Rightarrow> real))" where
  "normal z loc scale n =
     (if n < 0 then Inl ValueError
      else Inr (map (\<lambda>i. loc + scale * z i) [0..<nat n], \<lambda>i. z (i + nat n)))"

text \<open>\<open>np.clip(a, a_min, a_max)\<close> is \<open>minimum(a_max, maximum(a, a_min))\<close>, elementwise.\<close>

definition clip :: "real list \<Rightarrow> real \<Rightarrow> real \<Rightarrow> real list" where
  "clip a a_min a_max = map (\<lambda>x. min a_max (max x a_min)) a"

definition generate_real_time_data ::
  "datetime \<Rightarrow> (nat \<Rightarrow> real) \<Rightarrow> int \<Rightarrow> int \<Rightarrow> py_error + dataframe" where
  "generate_real_time_data now z num_points interval_minutes =
     (let time_series =
            map (\<lambda>i. now - timedelta (interval_minutes * i)) (range_py 0 num_points);
          time_series = sort time_series
      in case normal z 50 10 num_points of
           Inl e \<Rightarrow> Inl e
         | Inr (traffic, z') \<Rightarrow>
             (case normal z' 35 8 num_points of
                Inl e \<Rightarrow> Inl e
              | Inr (air, z'') \<Rightarrow>
                  DataFrame
                    [(Time, TimeCol time_series),
                     (Traffic_Density, NumCol (clip traffic 20 100)),
                     (PM2_5, NumCol (clip air 10 80))]))"

subsection \<open>generate_prediction_data (app.py, lines 31 to 41)\<close>

definition generate_prediction_data ::
  "datetime \<Rightarrow> real \<Rightarrow> int \<Rightarrow> int \<Rightarrow> real \<Rightarrow> py_error + dataframe" where
  "generate_prediction_data now latest_value steps interval_minutes trend_factor =
     (let last_time = now;
          future_times =
            map (\<lambda>i. last_time + timedelta (interval_minutes * i)) (range_py 1 (steps + 1));
          predicted_values =
            map (\<lambda>k. latest_value * trend_factor ^ nat k) (range_py 1 (steps + 1))
      in DataFrame
           [(Time, TimeCol future_times), (Predicted_Value, NumCol predicted_values)])"

subsection \<open>The scenario table df_sim (app.py, lines 116 to 129)\<close>

text \<open>
  The script copies \<open>df_rt\<close> and then writes two columns into the copy. Tables are objects
  that the script holds by reference, so the model keeps them in a store: a reference is
  an index into the list of the tables that exist.
\<close>

type_synonym ref = nat
type_synonym store = "dataframe list"

text \<open>\<open>df.copy()\<close>: a new table with the contents of the old one.\<close>

definition copy :: "store \<Rightarrow> ref \<Rightarrow> ref \<times> store" where
  "copy s r = (length s, s @ [s ! r])"

text \<open>\<open>df[c]\<close>: KeyError when the table has no such column.\<close>

definition getitem :: "dataframe \<Rightarrow> colname \<Rightarrow> py_error + column" where
  "getitem df c = (case map_of df c of None \<Rightarrow> Inl KeyError | Some col \<Rightarrow> Inr col)"

text \<open>\<open>series * k\<close> for a float \<open>k\<close>: elementwise; a datetime column raises TypeError.\<close>

definition mul_scalar :: "column \<Rightarrow> real \<Rightarrow> py_error + column" where
  "mul_scalar col k =
     (case col of
        NumCol xs \<Rightarrow> Inr (NumCol (map (\<lambda>x. x * k) xs))
      | TimeCol ts \<Rightarrow> Inl TypeError)"

text \<open>
  \<open>df[c] = col\<close> writes into the table that the reference names: the column replaces one
  of the same label, or is appended as the last one.
\<close>

definition setitem :: "store \<Rightarrow> ref \<Rightarrow> colname \<Rightarrow> column \<Rightarrow> store" where
  "setitem s r c col = s[r := AList.update c col (s ! r)]"

text \<open>\<open>a / b\<close> on Python ints: the true quotient, ZeroDivisionError for \<open>b = 0\<close>.\<close>

definition truediv :: "int \<Rightarrow> int \<Rightarrow> py_error + real" where
  "truediv a b = (if b = 0 then Inl ZeroDivisionError else Inr (real_of_int a / real_of_int b))"

text \<open>
  Lines 116 to 129, with the names of the script: \<open>df_rt\<close> is the reference of the
  history table, \<open>timing_adjustment\<close> and \<open>green_zone_effect\<close> are the values of the two
  sliders (Python ints; the sliders deliver 30 to 120 and 0 to 50, in steps of 5). The
  result is the reference \<open>df_sim\<close>, or the exception, and the store the block leaves
  behind. In \<open>a * (b / c)\<close> Python evaluates \<open>a\<close> first.
\<close>

definition simulate :: "store \<Rightarrow> ref \<Rightarrow> int \<Rightarrow> int \<Rightarrow> (py_error + ref) \<times> store" where
  "simulate s df_rt timing_adjustment green_zone_effect =
     (case copy s df_rt of (df_sim, s1) \<Rightarrow>
      (case getitem (s1 ! df_sim) Traffic_Density of
         Inl e \<Rightarrow> (Inl e, s1)
       | Inr traffic \<Rightarrow>
      (case truediv 60 timing_adjustment of
         Inl e \<Rightarrow> (Inl e, s1)
       | Inr f \<Rightarrow>
      (case mul_scalar traffic f of
         Inl e \<Rightarrow> (Inl e, s1)
       | Inr sim_traffic \<Rightarrow>
      (let s2 = setitem s1 df_sim Simulated_Traffic_Density sim_traffic in
      (case getitem (s2 ! df_sim) PM2_5 of
         Inl e \<Rightarrow> (Inl e, s2)
       | Inr air \<Rightarrow>
      (case truediv green_zone_effect 100 of
         Inl e \<Rightarrow> (Inl e, s2)
       | Inr q \<Rightarrow>
      (case mul_scalar air (1 - q) of
         Inl e \<Rightarrow> (Inl e, s2)
       | Inr sim_air \<Rightarrow>
           (Inr df_sim, setitem s2 df_sim Simulated_PM2_5 sim_air)))))))))"

text \<open>
  What a caller sees of one run of the block: the contents of the table \<open>df_sim\<close>, or
  the exception.
\<close>

definition simulate_output :: "store \<Rightarrow> ref \<Rightarrow> int \<Rightarrow> int \<Rightarrow> py_error + dataframe" where
  "simulate_output s df_rt timing_adjustment green_zone_effect =
     (case simulate s df_rt timing_adjustment green_zone_effect of
        (Inl e, s') \<Rightarrow> Inl e
      | (Inr df_sim, s') \<Rightarrow> Inr (s' ! df_sim))"

text \<open>The table that \<open>generate_real_time_data\<close> builds, by its three columns.\<close>

definition historical :: "datetime list \<Rightarrow> real list \<Rightarrow> real list \<Rightarrow> dataframe" where
  "historical ts traffic air =
     [(Time, TimeCol ts), (Traffic_Density, NumCol traffic), (PM2_5, NumCol air)]"

text \<open>
  \<open>st.slider(label, min_value, max_value, value, step)\<close> with int arguments returns an
  int: \<open>min_value\<close> plus a multiple of \<open>step\<close>, not above \<open>max_value\<close>. The predicate holds
  of the values \<open>v\<close> the widget can deliver. Line 111 calls it with 30, 120 and 5, line 124
  with 0, 50 and 5.
\<close>

definition st_slider :: "int \<Rightarrow> int \<Rightarrow> int \<Rightarrow> int \<Rightarrow> bool" where
  "st_slider min_value max_value step v \<longleftrightarrow>
     min_value \<le> v \<and> v \<le> max_value \<and> (v - min_value) mod step = 0"

subsection \<open>The predicted values of line 37 in binary64\<close>

text \<open>
  A float64 is a finite number, an infinity or a NaN. The finite ones are the multiples
  \<open>m * 2 ^ (e - 52)\<close> with \<open>\<bar>m\<bar> < 2 ^ 53\<close> and \<open>- 1022 \<le> e \<le> 1023\<close>; the two zeros are not
  told apart.
\<close>

datatype float64 = Finite real | PosInf | NegInf | NaN

text \<open>Rounding to the nearest integer, a tie to the even one.\<close>

definition round_even :: "real \<Rightarrow> int" where
  "round_even y =
     (let f = \<lfloor>y\<rfloor>; d = y - of_int f
      in if d < 1 / 2 then f else if 1 / 2 < d then f + 1 else if even f then f else f + 1)"

text \<open>
  The binary exponent of a real, not below that of the subnormal numbers, and the
  distance of neighbouring float64 at that exponent.
\<close>

definition exponent :: "real \<Rightarrow> int" where
  "exponent x = (if x = 0 then - 1022 else max \<lfloor>log 2 \<bar>x\<bar>\<rfloor> (- 1022))"

definition ulp :: "real \<Rightarrow> real" where
  "ulp x = 2 powr real_of_int (exponent x - 52)"

definition nearest :: "real \<Rightarrow> real" where
  "nearest x = real_of_int (round_even (x / ulp x)) * ulp x"

text \<open>
  The float64 of a real, as IEEE 754 rounds the result of an operation: to the nearest,
  a tie to the even significand, and to an infinity when the rounded magnitude reaches
  \<open>2 ^ 1024\<close>.
\<close>

definition round64 :: "real \<Rightarrow> float64" where
  "round64 x =
     (let y = nearest x
      in if 2 ^ 1024 \<le> \<bar>y\<bar> then (if 0 < x then PosInf else NegInf) else Finite y)"

text \<open>The comparisons \<open><=\<close> and \<open><\<close> of float64: false whenever a NaN takes part.\<close>

fun f64_le :: "float64 \<Rightarrow> float64 \<Rightarrow> bool" where
  "f64_le NaN q = False"
| "f64_le p NaN = False"
| "f64_le NegInf q = True"
| "f64_le p PosInf = True"
| "f64_le (Finite x) (Finite y) = (x \<le> y)"
| "f64_le p q = False"

fun f64_less :: "float64 \<Rightarrow> float64 \<Rightarrow> bool" where
  "f64_less NaN q = False"
| "f64_less p NaN = False"
| "f64_less (Finite x) (Finite y) = (x < y)"
| "f64_less NegInf NegInf = False"
| "f64_less NegInf q = True"
| "f64_less PosInf q = False"
| "f64_less (Finite x) PosInf = True"
| "f64_less (Finite x) NegInf = False"

text \<open>
  \<open>trend_factor ** k\<close> for a finite float and a positive integer \<open>k\<close>: numpy converts \<open>k\<close>
  to float64 (exactly) and calls the power function of the C library, modelled here as
  correctly rounded.
\<close>

definition pow64 :: "real \<Rightarrow> nat \<Rightarrow> float64" where
  "pow64 x k = round64 (x ^ k)"

text \<open>\<open>a * p\<close> for a finite float \<open>a\<close>: the product rounded; zero times an infinity is a NaN.\<close>

fun mul64 :: "real \<Rightarrow> float64 \<Rightarrow> float64" where
  "mul64 a (Finite y) = round64 (a * y)"
| "mul64 a PosInf = (if 0 < a then PosInf else if a < 0 then NegInf else NaN)"
| "mul64 a NegInf = (if 0 < a then NegInf else if a < 0 then PosInf else NaN)"
| "mul64 a NaN = NaN"

text \<open>
  Line 37, \<open>latest_value * (trend_factor ** np.arange(1, steps + 1))\<close>, for finite floats
  \<open>latest_value\<close> and \<open>trend_factor\<close>: the column Predicted Value as numpy computes it.
\<close>

definition predicted_values_f64 :: "real \<Rightarrow> int \<Rightarrow> real \<Rightarrow> float64 list" where
  "predicted_values_f64 latest_value steps trend_factor =
     map (\<lambda>k. mul64 latest_value (pow64 trend_factor (nat k))) (range_py 1 (steps + 1))"

text \<open>The float64 that are not negative.\<close>

fun nonneg64 :: "float64 \<Rightarrow> bool" where
  "nonneg64 (Finite y) = (0 \<le> y)"
| "nonneg64 PosInf = True"
| "nonneg64 NegInf = False"
| "nonneg64 NaN = False"

section \<open>Auxiliary facts\<close>

lemma range_py_conv: "range_py a b = map (\<lambda>k. a + int k) [0..<nat (b - a)]"
proof (rule nth_equalityI)
  show "length (range_py a b) = length (map (\<lambda>k. a + int k) [0..<nat (b - a)])"
    by (simp add: range_py_def)
next
  fix i assume "i < length (range_py a b)"
  then have "i < nat (b - a)" by (simp add: range_py_def)
  then show "range_py a b ! i = map (\<lambda>k. a + int k) [0..<nat (b - a)] ! i"
    by (simp add: range_py_def)
qed

lemma forecast_result:
  "generate_prediction_data now l s i g =
     Inr [(Time, TimeCol (map (\<lambda>k. now + timedelta (i * (1 + int k))) [0..<nat s])),
          (Predicted_Value, NumCol (map (\<lambda>k. l * g ^ Suc k) [0..<nat s]))]"
  by (simp add: generate_prediction_data_def DataFrame_def range_py_conv o_def nat_add_distrib)

lemma sort_backward:
  assumes "0 < d"
  shows "sort (map (\<lambda>k. now - timedelta (d * int k)) [0..<n]) =
         map (\<lambda>j. now - timedelta (d * (int n - 1 - int j))) [0..<n]"
proof (rule properties_for_sort)
  have "map (\<lambda>j. now - timedelta (d * (int n - 1 - int j))) [0..<n]
        = rev (map (\<lambda>k. now - timedelta (d * int k)) [0..<n])"
    by (rule nth_equalityI) (simp_all add: rev_nth algebra_simps)
  then show "mset (map (\<lambda>j. now - timedelta (d * (int n - 1 - int j))) [0..<n]) =
        mset (map (\<lambda>k. now - timedelta (d * int k)) [0..<n])"
    by simp
next
  show "sorted (map (\<lambda>j. now - timedelta (d * (int n - 1 - int j))) [0..<n])"
    using assms by (auto simp: sorted_iff_nth_mono timedelta_def)
qed

lemma generate_result:
  assumes "0 \<le> n"
  shows "generate_real_time_data now z n d =
     Inr (historical (sort (map (\<lambda>k. now - timedelta (d * int k)) [0..<nat n]))
            (clip (map (\<lambda>k. 50 + 10 * z k) [0..<nat n]) 20 100)
            (clip (map (\<lambda>k. 35 + 8 * z (k + nat n)) [0..<nat n]) 10 80))"
  using assms
  by (simp add: generate_real_time_data_def normal_def DataFrame_def range_py_conv o_def
      historical_def clip_def)

lemma simulate_result:
  assumes "r < length s" "s ! r = historical ts traffic air" "t \<noteq> 0"
  shows "simulate s r t g =
     (Inr (length s),
      s @ [historical ts traffic air @
           [(Simulated_Traffic_Density, NumCol (map (\<lambda>x. x * (60 / real_of_int t)) traffic)),
            (Simulated_PM2_5, NumCol (map (\<lambda>x. x * (1 - real_of_int g / 100)) air))]])"
  using assms
  by (simp add: simulate_def copy_def getitem_def truediv_def mul_scalar_def setitem_def
      historical_def Let_def)

lemma simulate_keeps_store:
  assumes "j < length s"
  shows "snd (simulate s r t g) ! j = s ! j" and "length s \<le> length (snd (simulate s r t g))"
  using assms
  by (auto simp add: simulate_def copy_def setitem_def Let_def nth_append
      split: sum.splits)

lemma simulate_output_content:
  "simulate_output s r t g = simulate_output [s ! r] 0 t g"
  by (simp add: simulate_output_def simulate_def copy_def setitem_def Let_def nth_append
      split: sum.splits)

lemma clip_nth:
  "i < length a \<Longrightarrow> lo \<le> hi \<Longrightarrow>
   clip a lo hi ! i = (if a ! i < lo then lo else if hi < a ! i then hi else a ! i)"
  by (simp add: clip_def min_def max_def)

lemma clip_bounds:
  "lo \<le> hi \<Longrightarrow> x \<in> set (clip a lo hi) \<Longrightarrow> lo \<le> x \<and> x \<le> hi"
  by (auto simp: clip_def min_def max_def)

lemma simulate_output_result:
  assumes "r < length s" "s ! r = historical ts traffic air" "t \<noteq> 0"
  shows "simulate_output s r t g =
     Inr (historical ts traffic air @
           [(Simulated_Traffic_Density, NumCol (map (\<lambda>x. x * (60 / real_of_int t)) traffic)),
            (Simulated_PM2_5, NumCol (map (\<lambda>x. x * (1 - real_of_int g / 100)) air))])"
  using simulate_result [OF assms] by (simp add: simulate_output_def)

subsection \<open>Rounding to binary64\<close>

lemma round_even_le: "y \<le> of_int n \<Longrightarrow> round_even y \<le> n"
  unfolding round_even_def Let_def by (auto; linarith)

lemma round_even_ge: "of_int n \<le> y \<Longrightarrow> n \<le> round_even y"
  unfolding round_even_def Let_def by (auto; linarith)

lemma round_even_mono: "a \<le> b \<Longrightarrow> round_even a \<le> round_even b"
proof -
  assume ab: "a \<le> b"
  have fl: "\<lfloor>a\<rfloor> \<le> \<lfloor>b\<rfloor>" using ab by (rule floor_mono)
  show ?thesis
  proof (cases "\<lfloor>a\<rfloor> = \<lfloor>b\<rfloor>")
    case True
    then show ?thesis using ab unfolding round_even_def Let_def by auto
  next
    case False
    then have "\<lfloor>a\<rfloor> + 1 \<le> \<lfloor>b\<rfloor>" using fl by linarith
    moreover have "round_even a \<le> \<lfloor>a\<rfloor> + 1" unfolding round_even_def Let_def by auto
    moreover have "\<lfloor>b\<rfloor> \<le> round_even b" unfolding round_even_def Let_def by auto
    ultimately show ?thesis by linarith
  qed
qed

lemma ulp_pos: "0 < ulp x"
  by (simp add: ulp_def)

lemma exponent_upper: "0 < x \<Longrightarrow> x < 2 powr real_of_int (exponent x + 1)"
proof -
  assume x: "0 < x"
  have "x < 2 powr real_of_int (\<lfloor>log 2 x\<rfloor> + 1)"
    using x floor_log_eq_powr_iff [of x 2 "\<lfloor>log 2 x\<rfloor>"] by simp
  also have "\<dots> \<le> 2 powr real_of_int (exponent x + 1)"
    using x by (intro powr_mono) (auto simp: exponent_def)
  finally show ?thesis .
qed

lemma exponent_lower: "0 < x \<Longrightarrow> - 1022 < exponent x \<Longrightarrow> 2 powr real_of_int (exponent x) \<le> x"
proof -
  assume x: "0 < x" and e: "- 1022 < exponent x"
  then have "exponent x = \<lfloor>log 2 x\<rfloor>" by (auto simp: exponent_def max_def split: if_splits)
  then show ?thesis
    using x floor_log_eq_powr_iff [of x 2 "\<lfloor>log 2 x\<rfloor>"] by simp
qed

lemma exponent_mono: "0 < x \<Longrightarrow> x \<le> y \<Longrightarrow> exponent x \<le> exponent y"
proof -
  assume x: "0 < x" and xy: "x \<le> y"
  then have "log 2 x \<le> log 2 y" by (intro log_mono) auto
  then have "\<lfloor>log 2 x\<rfloor> \<le> \<lfloor>log 2 y\<rfloor>" by (rule floor_mono)
  then show ?thesis using x xy by (auto simp: exponent_def)
qed

lemma nearest_upper: "0 < x \<Longrightarrow> nearest x \<le> 2 powr real_of_int (exponent x + 1)"
proof -
  assume x: "0 < x"
  have split: "2 powr real_of_int (exponent x + 1) = 2 ^ 53 * ulp x"
  proof -
    have "real_of_int (exponent x + 1) = 53 + real_of_int (exponent x - 52)" by simp
    then have "2 powr real_of_int (exponent x + 1) = 2 powr 53 * ulp x"
      unfolding ulp_def by (simp only: powr_add)
    then show ?thesis by simp
  qed
  have "x / ulp x \<le> 2 ^ 53"
    using exponent_upper [OF x] ulp_pos [of x] unfolding split
    by (simp add: field_simps)
  then have "x / ulp x \<le> of_int (2 ^ 53)" by simp
  then have "round_even (x / ulp x) \<le> 2 ^ 53" by (rule round_even_le)
  then have "real_of_int (round_even (x / ulp x)) \<le> 2 ^ 53"
    by (metis of_int_le_iff of_int_numeral of_int_power)
  then show ?thesis
    unfolding nearest_def split using ulp_pos [of x] by (simp add: mult_right_mono)
qed

lemma nearest_lower:
  "0 < x \<Longrightarrow> - 1022 < exponent x \<Longrightarrow> 2 powr real_of_int (exponent x) \<le> nearest x"
proof -
  assume x: "0 < x" and e: "- 1022 < exponent x"
  have split: "2 powr real_of_int (exponent x) = 2 ^ 52 * ulp x"
  proof -
    have "real_of_int (exponent x) = 52 + real_of_int (exponent x - 52)" by simp
    then have "2 powr real_of_int (exponent x) = 2 powr 52 * ulp x"
      unfolding ulp_def by (simp only: powr_add)
    then show ?thesis by simp
  qed
  have "2 ^ 52 \<le> x / ulp x"
    using exponent_lower [OF x e] ulp_pos [of x] unfolding split
    by (simp add: field_simps)
  then have "of_int (2 ^ 52) \<le> x / ulp x" by simp
  then have "2 ^ 52 \<le> round_even (x / ulp x)" by (rule round_even_ge)
  then have "2 ^ 52 \<le> real_of_int (round_even (x / ulp x))"
    by (metis of_int_le_iff of_int_numeral of_int_power)
  then show ?thesis
    unfolding nearest_def split using ulp_pos [of x] by (simp add: mult_right_mono)
qed

lemma nearest_nonneg: "0 \<le> x \<Longrightarrow> 0 \<le> nearest x"
proof -
  assume "0 \<le> x"
  then have "of_int 0 \<le> x / ulp x" using ulp_pos [of x] by simp
  then have "0 \<le> round_even (x / ulp x)" by (rule round_even_ge)
  then show ?thesis unfolding nearest_def using ulp_pos [of x] by simp
qed

lemma nearest_mono: "0 \<le> x \<Longrightarrow> x \<le> y \<Longrightarrow> nearest x \<le> nearest y"
proof -
  assume x0: "0 \<le> x" and xy: "x \<le> y"
  show ?thesis
  proof (cases "x = 0")
    case True
    then have "nearest x = 0" by (simp add: nearest_def round_even_def)
    then show ?thesis using nearest_nonneg [of y] x0 xy by simp
  next
    case False
    then have x: "0 < x" and y: "0 < y" using x0 xy by auto
    have le: "exponent x \<le> exponent y" using x xy by (rule exponent_mono)
    show ?thesis
    proof (cases "exponent x = exponent y")
      case True
      then have u: "ulp x = ulp y" by (simp add: ulp_def)
      have "x / ulp y \<le> y / ulp y" using xy ulp_pos [of y] by (simp add: divide_right_mono)
      then have "round_even (x / ulp y) \<le> round_even (y / ulp y)" by (rule round_even_mono)
      then show ?thesis
        unfolding nearest_def u using ulp_pos [of y] by (simp add: mult_right_mono)
    next
      case False
      then have lt: "exponent x + 1 \<le> exponent y" using le by linarith
      have "- 1022 \<le> exponent x" using x by (simp add: exponent_def)
      then have ey: "- 1022 < exponent y" using lt by linarith
      have "nearest x \<le> 2 powr real_of_int (exponent x + 1)" using x by (rule nearest_upper)
      also have "\<dots> \<le> 2 powr real_of_int (exponent y)"
        using lt by (intro powr_mono) auto
      also have "\<dots> \<le> nearest y" using y ey by (rule nearest_lower)
      finally show ?thesis .
    qed
  qed
qed

lemma round64_nearest:
  "round64 x = (if 2 ^ 1024 \<le> \<bar>nearest x\<bar> then (if 0 < x then PosInf else NegInf)
                else Finite (nearest x))"
  by (simp add: round64_def Let_def)

lemma round64_mono: "0 \<le> x \<Longrightarrow> x \<le> y \<Longrightarrow> f64_le (round64 x) (round64 y)"
proof -
  assume x0: "0 \<le> x" and xy: "x \<le> y"
  have n: "nearest x \<le> nearest y" using x0 xy by (rule nearest_mono)
  have nx: "0 \<le> nearest x" using x0 by (rule nearest_nonneg)
  have ny: "0 \<le> nearest y" using x0 xy by (intro nearest_nonneg) simp
  have pos: "0 < y" if "2 ^ 1024 \<le> nearest y"
  proof (rule ccontr)
    assume "\<not> 0 < y"
    then have "y = 0" using x0 xy by simp
    then have "nearest y = 0" by (simp add: nearest_def round_even_def)
    then show False using that by simp
  qed
  show ?thesis
    using n nx ny pos x0 xy by (auto simp: round64_nearest)
qed

lemma round64_nonneg: "0 \<le> x \<Longrightarrow> nonneg64 (round64 x)"
proof -
  assume x: "0 \<le> x"
  have "0 < x" if "2 ^ 1024 \<le> \<bar>nearest x\<bar>"
  proof (rule ccontr)
    assume "\<not> 0 < x"
    then have "x = 0" using x by simp
    then have "nearest x = 0" by (simp add: nearest_def round_even_def)
    then show False using that by simp
  qed
  then show ?thesis
    using nearest_nonneg [OF x] by (auto simp: round64_nearest)
qed

lemma mul64_mono:
  assumes "0 < a" and "nonneg64 p" and "f64_le p q"
  shows "f64_le (mul64 a p) (mul64 a q)"
proof (cases p)
  case (Finite x)
  then have x: "0 \<le> x" using assms(2) by simp
  show ?thesis
  proof (cases q)
    case (Finite y)
    then have "x \<le> y" using assms(3) \<open>p = Finite x\<close> by simp
    then have "a * x \<le> a * y" using assms(1) by simp
    moreover have "0 \<le> a * x" using assms(1) x by simp
    ultimately show ?thesis
      using \<open>p = Finite x\<close> Finite by (simp add: round64_mono)
  next
    case PosInf
    have "nonneg64 (round64 (a * x))" using assms(1) x by (intro round64_nonneg) simp
    then show ?thesis
      using \<open>p = Finite x\<close> PosInf assms(1) by (cases "round64 (a * x)") simp_all
  next
    case NegInf
    then show ?thesis using assms(3) \<open>p = Finite x\<close> by simp
  next
    case NaN
    then show ?thesis using assms(3) \<open>p = Finite x\<close> by simp
  qed
next
  case PosInf
  then show ?thesis using assms by (cases q) simp_all
next
  case NegInf
  then show ?thesis using assms(2) by simp
next
  case NaN
  then show ?thesis using assms(2) by simp
qed

lemma predicted_values_f64_conv:
  "predicted_values_f64 l s g = map (\<lambda>k. mul64 l (pow64 g (Suc k))) [0..<nat s]"
  by (simp add: predicted_values_f64_def range_py_conv o_def nat_add_distrib)

lemma round_even_eq:
  assumes "real_of_int m - 1 / 2 < y" and "y < real_of_int m + 1 / 2"
  shows "round_even y = m"
proof (cases "real_of_int m \<le> y")
  case True
  then have "\<lfloor>y\<rfloor> = m" using assms(2) by linarith
  then show ?thesis using assms(2) by (simp add: round_even_def)
next
  case False
  then have "\<lfloor>y\<rfloor> = m - 1" using assms(1) by linarith
  then show ?thesis using assms(1) by (simp add: round_even_def)
qed

lemma round64_eval:
  assumes "0 < x" and "- 1022 \<le> e"
    and "2 powr real_of_int e \<le> x" and "x < 2 powr real_of_int (e + 1)"
    and "u = 2 powr real_of_int (e - 52)"
    and "real_of_int m - 1 / 2 < x / u" and "x / u < real_of_int m + 1 / 2"
    and "\<bar>real_of_int m * u\<bar> < 2 ^ 1024"
  shows "round64 x = Finite (real_of_int m * u)"
proof -
  have "\<lfloor>log 2 x\<rfloor> = e"
    using assms(1,3,4) floor_log_eq_powr_iff [of x 2 e] by simp
  then have ex: "exponent x = e" using assms(1,2) by (simp add: exponent_def)
  then have u: "ulp x = u" by (simp add: ulp_def assms(5))
  have "round_even (x / u) = m"
    using assms(6,7) by (rule round_even_eq)
  then show ?thesis
    using assms(8) by (simp add: round64_def nearest_def u Let_def)
qed

lemma powr_binades: "2 powr real_of_int (- 1) = 1 / 2" "2 powr real_of_int (- 1 + 1) = 1"
  "2 powr real_of_int (- 1 - 52) = 1 / 2 ^ 53"
  "2 powr real_of_int 5 = 32" "2 powr real_of_int (5 + 1) = 64"
  "2 powr real_of_int (5 - 52) = 1 / 2 ^ 47"
  by (simp_all add: powr_minus_divide)

lemma below_one:
  assumes "j = 1 \<or> j = 2 \<or> j = 3" and "x = (1 - 1 / 2 ^ 53) ^ nat j"
  shows "round64 x = Finite (real_of_int (2 ^ 53 - j) * (1 / 2 ^ 53))"
proof (rule round64_eval [where e = "- 1"])
  show "0 < x" using assms by auto
  show "- 1022 \<le> (- 1 :: int)" by simp
  show "2 powr real_of_int (- 1) \<le> x" unfolding powr_binades using assms by (auto simp: eval_nat_numeral)
  show "x < 2 powr real_of_int (- 1 + 1)" unfolding powr_binades using assms by (auto simp: eval_nat_numeral)
  show "1 / 2 ^ 53 = 2 powr real_of_int (- 1 - 52)" unfolding powr_binades by simp
  show "real_of_int (2 ^ 53 - j) - 1 / 2 < x / (1 / 2 ^ 53)"
    using assms by (auto simp: eval_nat_numeral)
  show "x / (1 / 2 ^ 53) < real_of_int (2 ^ 53 - j) + 1 / 2"
    using assms by (auto simp: eval_nat_numeral)
  show "\<bar>real_of_int (2 ^ 53 - j) * (1 / 2 ^ 53)\<bar> < 2 ^ 1024"
    using assms by auto
qed

lemma pow64_below_one:
  "pow64 (1 - 1 / 2 ^ 53) 1 = Finite (1 - 1 / 2 ^ 53)"
  "pow64 (1 - 1 / 2 ^ 53) 2 = Finite (1 - 2 / 2 ^ 53)"
  "pow64 (1 - 1 / 2 ^ 53) 3 = Finite (1 - 3 / 2 ^ 53)"
  using below_one [of 1 "(1 - 1 / 2 ^ 53) ^ 1"] below_one [of 2 "(1 - 1 / 2 ^ 53) ^ 2"]
    below_one [of 3 "(1 - 1 / 2 ^ 53) ^ 3"]
  by (simp_all add: pow64_def)

lemma near_fifty:
  assumes "(j = 1 \<and> m = 1) \<or> (j = 2 \<and> m = 2) \<or> (j = 3 \<and> m = 2)"
    and "x = 50 * (1 - real_of_int j / 2 ^ 53)"
  shows "round64 x = Finite (real_of_int (50 * 2 ^ 47 - m) * (1 / 2 ^ 47))"
proof (rule round64_eval [where e = 5])
  show "0 < x" using assms by auto
  show "- 1022 \<le> (5 :: int)" by simp
  show "2 powr real_of_int 5 \<le> x" unfolding powr_binades using assms by auto
  show "x < 2 powr real_of_int (5 + 1)" unfolding powr_binades using assms by auto
  show "1 / 2 ^ 47 = 2 powr real_of_int (5 - 52)" unfolding powr_binades by simp
  show "real_of_int (50 * 2 ^ 47 - m) - 1 / 2 < x / (1 / 2 ^ 47)"
    using assms by auto
  show "x / (1 / 2 ^ 47) < real_of_int (50 * 2 ^ 47 - m) + 1 / 2"
    using assms by auto
  show "\<bar>real_of_int (50 * 2 ^ 47 - m) * (1 / 2 ^ 47)\<bar> < 2 ^ 1024"
    using assms by auto
qed

lemma mul64_near_fifty:
  "mul64 50 (Finite (1 - 1 / 2 ^ 53)) = Finite (50 - 1 / 2 ^ 47)"
  "mul64 50 (Finite (1 - 2 / 2 ^ 53)) = Finite (50 - 2 / 2 ^ 47)"
  "mul64 50 (Finite (1 - 3 / 2 ^ 53)) = Finite (50 - 2 / 2 ^ 47)"
  using near_fifty [of 1 1 "50 * (1 - 1 / 2 ^ 53)"] near_fifty [of 2 2 "50 * (1 - 2 / 2 ^ 53)"]
    near_fifty [of 3 2 "50 * (1 - 3 / 2 ^ 53)"]
  by simp_all

section \<open>The forecast\<close>



text \<open>
  Claim C7. Called at a time \<open>T\<close> with latest value 50, 3 steps, an interval of 5
  minutes and trend factor 1.05, the forecast holds the values 52.5, 55.125 and
  57.88125 at the times \<open>T\<close> plus 5, 10 and 15 minutes.
\<close>

theorem forecast_example:
  "generate_prediction_data T 50 3 5 1.05 =
     Inr [(Time, TimeCol [T + timedelta 5, T + timedelta 10, T + timedelta 15]),
          (Predicted_Value, NumCol [52.5, 55.125, 57.88125])]"
  by (simp add: forecast_result upt_rec power_Suc)

text \<open>
  Claim C10, as stated, promises strictly decreasing values for every trend factor
  strictly between 0 and 1. Line 37 computes in binary64. With latest value 50, 3 steps
  and trend factor \<open>1 - 2 ^ - 53\<close> (the float written 0.9999999999999999) the powers round
  to \<open>1 - 2 ^ - 53\<close>, \<open>1 - 2 * 2 ^ - 53\<close> and \<open>1 - 3 * 2 ^ - 53\<close>, and the products of the
  last two with 50 round to one float64, \<open>50 - 2 ^ - 46\<close>: the second and the third value
  are equal.
\<close>

theorem forecast_rounding_tie:
  "predicted_values_f64 50 3 (1 - 1 / 2 ^ 53) =
     [Finite (50 - 1 / 2 ^ 47), Finite (50 - 2 / 2 ^ 47), Finite (50 - 2 / 2 ^ 47)]
   \<and> \<not> f64_less (predicted_values_f64 50 3 (1 - 1 / 2 ^ 53) ! 2)
              (predicted_values_f64 50 3 (1 - 1 / 2 ^ 53) ! 1)"
proof -
  have "predicted_values_f64 50 3 (1 - 1 / 2 ^ 53) =
     [mul64 50 (pow64 (1 - 1 / 2 ^ 53) 1), mul64 50 (pow64 (1 - 1 / 2 ^ 53) 2),
      mul64 50 (pow64 (1 - 1 / 2 ^ 53) 3)]"
    by (simp add: predicted_values_f64_conv upt_rec eval_nat_numeral del: mul64.simps)
  then have "predicted_values_f64 50 3 (1 - 1 / 2 ^ 53) =
     [Finite (50 - 1 / 2 ^ 47), Finite (50 - 2 / 2 ^ 47), Finite (50 - 2 / 2 ^ 47)]"
    by (simp only: pow64_below_one mul64_near_fifty)
  then show ?thesis by simp
qed

text \<open>
  Claim C10, amended. For a positive latest value and at least 2 steps the forecast
  holds at least 2 values, and with every operation correctly rounded to binary64
  consecutive values never decrease when the trend factor is above 1 and never increase
  when it lies strictly between 0 and 1. Consecutive values can be equal.
\<close>

theorem forecast_monotone_f64:
  assumes "0 < latest_value" and "2 \<le> steps"
  shows "length (predicted_values_f64 latest_value steps trend_factor) = nat steps
       \<and> 2 \<le> nat steps
       \<and> (1 < trend_factor \<longrightarrow>
            (\<forall>k. Suc k < nat steps \<longrightarrow>
               f64_le (predicted_values_f64 latest_value steps trend_factor ! k)
                      (predicted_values_f64 latest_value steps trend_factor ! Suc k)))
       \<and> (0 < trend_factor \<and> trend_factor < 1 \<longrightarrow>
            (\<forall>k. Suc k < nat steps \<longrightarrow>
               f64_le (predicted_values_f64 latest_value steps trend_factor ! Suc k)
                      (predicted_values_f64 latest_value steps trend_factor ! k)))"
proof -
  let ?vs = "predicted_values_f64 latest_value steps trend_factor"
  have nth: "?vs ! k = mul64 latest_value (pow64 trend_factor (Suc k))" if "k < nat steps" for k
    using that by (simp add: predicted_values_f64_conv)
  have up: "f64_le (?vs ! k) (?vs ! Suc k)" if g: "1 < trend_factor" and k: "Suc k < nat steps" for k
  proof -
    have "trend_factor ^ Suc k \<le> trend_factor ^ Suc (Suc k)"
      using g by (intro power_increasing) simp_all
    moreover have "0 \<le> trend_factor ^ Suc k" using g by simp
    ultimately have "f64_le (pow64 trend_factor (Suc k)) (pow64 trend_factor (Suc (Suc k)))"
      unfolding pow64_def by (intro round64_mono)
    moreover have "nonneg64 (pow64 trend_factor (Suc k))"
      unfolding pow64_def using g by (intro round64_nonneg) simp
    ultimately have "f64_le (mul64 latest_value (pow64 trend_factor (Suc k)))
        (mul64 latest_value (pow64 trend_factor (Suc (Suc k))))"
      using assms(1) by (intro mul64_mono)
    then show ?thesis using k nth [of k] nth [of "Suc k"] by simp
  qed
  have down: "f64_le (?vs ! Suc k) (?vs ! k)"
    if g: "0 < trend_factor \<and> trend_factor < 1" and k: "Suc k < nat steps" for k
  proof -
    have "trend_factor ^ Suc (Suc k) \<le> trend_factor ^ Suc k"
      using g by (intro power_decreasing) simp_all
    moreover have "0 \<le> trend_factor ^ Suc (Suc k)" using g by simp
    ultimately have "f64_le (pow64 trend_factor (Suc (Suc k))) (pow64 trend_factor (Suc k))"
      unfolding pow64_def by (intro round64_mono)
    moreover have "nonneg64 (pow64 trend_factor (Suc (Suc k)))"
      unfolding pow64_def using g by (intro round64_nonneg) simp
    ultimately have "f64_le (mul64 latest_value (pow64 trend_factor (Suc (Suc k))))
        (mul64 latest_value (pow64 trend_factor (Suc k)))"
      using assms(1) by (intro mul64_mono)
    then show ?thesis using k nth [of k] nth [of "Suc k"] by simp
  qed
  show ?thesis
  proof (intro conjI)
    show "length ?vs = nat steps" by (simp add: predicted_values_f64_conv)
    show "2 \<le> nat steps" using assms(2) by simp
    show "1 < trend_factor \<longrightarrow> (\<forall>k. Suc k < nat steps \<longrightarrow> f64_le (?vs ! k) (?vs ! Suc k))"
      using up by blast
    show "0 < trend_factor \<and> trend_factor < 1 \<longrightarrow>
        (\<forall>k. Suc k < nat steps \<longrightarrow> f64_le (?vs ! Suc k) (?vs ! k))"
      using down by blast
  qed
qed

theorem forecast_monotone_f64_witness:
  "(0::real) < 50 \<and> (2::int) \<le> 3 \<and> (1::real) < 2 \<and>
   length (predicted_values_f64 50 3 2) = nat 3 \<and>
   f64_le (predicted_values_f64 50 3 2 ! 0) (predicted_values_f64 50 3 2 ! 1) \<and>
   f64_le (predicted_values_f64 50 3 2 ! 1) (predicted_values_f64 50 3 2 ! 2) \<and>
   (0::real) < 1 - 1 / 2 ^ 53 \<and> (1 - 1 / 2 ^ 53 :: real) < 1 \<and>
   f64_le (predicted_values_f64 50 3 (1 - 1 / 2 ^ 53) ! 1)
          (predicted_values_f64 50 3 (1 - 1 / 2 ^ 53) ! 0) \<and>
   f64_le (predicted_values_f64 50 3 (1 - 1 / 2 ^ 53) ! 2)
          (predicted_values_f64 50 3 (1 - 1 / 2 ^ 53) ! 1)"
proof -
  have h1: "(0::real) < 50" by simp
  have h2: "(2::int) \<le> 3" by simp
  have g1: "(1::real) < 2" by simp
  have g2: "(0::real) < 1 - 1 / 2 ^ 53 \<and> (1 - 1 / 2 ^ 53 :: real) < 1" by simp
  have k: "Suc 0 < nat 3" "Suc (Suc 0) < nat 3" "Suc 0 = 1" "Suc (Suc 0) = 2" by simp_all
  show ?thesis
    using h1 h2 g1 g2 k
      forecast_monotone_f64 [OF h1 h2, where trend_factor = 2]
      forecast_monotone_f64 [OF h1 h2, where trend_factor = "1 - 1 / 2 ^ 53"]
    by metis
qed

section \<open>The generated history\<close>

text \<open>
  Claim C2. For a positive count and a positive interval the generator returns exactly
  \<open>num_points\<close> rows. Its timestamps are strictly ascending, consecutive ones are exactly
  \<open>interval_minutes\<close> minutes apart, row \<open>j\<close> is \<open>num_points - 1 - j\<close> intervals before
  \<open>now\<close>, and the last one is \<open>now\<close> itself. For 5 points at 5 minutes the timestamps
  are \<open>now\<close> minus 20, 15, 10, 5 and 0 minutes.
\<close>

theorem generate_timestamps:
  assumes "0 < num_points" and "0 < interval_minutes"
  shows "\<exists>ts traffic air.
           generate_real_time_data now z num_points interval_minutes =
             Inr [(Time, TimeCol ts), (Traffic_Density, NumCol traffic), (PM2_5, NumCol air)]
         \<and> length ts = nat num_points
         \<and> length traffic = nat num_points
         \<and> length air = nat num_points
         \<and> sorted_wrt (<) ts
         \<and> (\<forall>j. Suc j < nat num_points \<longrightarrow> ts ! Suc j = ts ! j + timedelta interval_minutes)
         \<and> (\<forall>j. j < nat num_points \<longrightarrow>
                ts ! j = now - timedelta (interval_minutes * (num_points - 1 - int j)))
         \<and> last ts = now
         \<and> (num_points = 5 \<and> interval_minutes = 5 \<longrightarrow>
                ts = [now - timedelta 20, now - timedelta 15, now - timedelta 10,
                      now - timedelta 5, now])"
proof -
  let ?n = "nat num_points"
  let ?ts = "map (\<lambda>j. now - timedelta (interval_minutes * (int ?n - 1 - int j))) [0..<?n]"
  let ?tr = "clip (map (\<lambda>k. 50 + 10 * z k) [0..<?n]) 20 100"
  let ?aq = "clip (map (\<lambda>k. 35 + 8 * z (k + ?n)) [0..<?n]) 10 80"
  have n: "int ?n = num_points" "0 < ?n"
    using assms(1) by simp_all
  have res: "generate_real_time_data now z num_points interval_minutes =
      Inr [(Time, TimeCol ?ts), (Traffic_Density, NumCol ?tr), (PM2_5, NumCol ?aq)]"
    using assms by (simp add: generate_result sort_backward historical_def)
  have step: "?ts ! Suc j = ?ts ! j + timedelta interval_minutes" if "Suc j < ?n" for j
    using that by (simp add: timedelta_def algebra_simps)
  have nth: "?ts ! j = now - timedelta (interval_minutes * (num_points - 1 - int j))"
    if "j < ?n" for j
    using that n by simp
  have incr: "sorted_wrt (<) ?ts"
    using assms(2) by (auto simp: sorted_wrt_iff_nth_less timedelta_def)
  have lst: "last ?ts = now"
    using n(2) by (simp add: last_conv_nth timedelta_def)
  have ex: "?ts = [now - timedelta 20, now - timedelta 15, now - timedelta 10,
                      now - timedelta 5, now]"
    if "num_points = 5 \<and> interval_minutes = 5"
    using that by (simp add: upt_rec timedelta_def)
  show ?thesis
  proof (intro exI conjI)
    show "generate_real_time_data now z num_points interval_minutes =
      Inr [(Time, TimeCol ?ts), (Traffic_Density, NumCol ?tr), (PM2_5, NumCol ?aq)]"
      by (rule res)
    show "length ?ts = ?n" by simp
    show "length ?tr = ?n" by (simp add: clip_def)
    show "length ?aq = ?n" by (simp add: clip_def)
    show "sorted_wrt (<) ?ts" by (rule incr)
    show "\<forall>j. Suc j < ?n \<longrightarrow> ?ts ! Suc j = ?ts ! j + timedelta interval_minutes"
      using step by blast
    show "\<forall>j. j < ?n \<longrightarrow>
        ?ts ! j = now - timedelta (interval_minutes * (num_points - 1 - int j))"
      using nth by blast
    show "last ?ts = now" by (rule lst)
    show "num_points = 5 \<and> interval_minutes = 5 \<longrightarrow>
       ?ts = [now - timedelta 20, now - timedelta 15, now - timedelta 10,
                      now - timedelta 5, now]"
      using ex by blast
  qed
qed

theorem generate_timestamps_witness:
  "(0::int) < 5 \<and> (0::int) < 5 \<and>
   (\<exists>ts traffic air.
      generate_real_time_data 0 (\<lambda>i. 0) 5 5 =
        Inr [(Time, TimeCol ts), (Traffic_Density, NumCol traffic), (PM2_5, NumCol air)]
    \<and> length ts = nat 5
    \<and> length traffic = nat 5
    \<and> length air = nat 5
    \<and> sorted_wrt (<) ts
    \<and> (\<forall>j. Suc j < nat 5 \<longrightarrow> ts ! Suc j = ts ! j + timedelta 5)
    \<and> (\<forall>j. j < nat 5 \<longrightarrow> ts ! j = 0 - timedelta (5 * (5 - 1 - int j)))
    \<and> last ts = 0
    \<and> ((5::int) = 5 \<and> (5::int) = 5 \<longrightarrow>
          ts = [0 - timedelta 20, 0 - timedelta 15, 0 - timedelta 10, 0 - timedelta 5, 0]))"
proof -
  have h: "(0::int) < 5" by simp
  show ?thesis
    using h generate_timestamps [OF h h, where now = 0 and z = "\<lambda>i. 0"] by blast
qed

text \<open>
  Claim C3. Whatever the generator draws, every traffic value of the table lies in
  \<open>[20, 100]\<close> and every air quality value in \<open>[10, 80]\<close>. No sample is rejected: both
  columns keep \<open>num_points\<close> entries, and entry \<open>i\<close> is the drawn sample \<open>loc + scale * z\<close>
  when that lies within the bounds and the nearer bound otherwise. This holds for every
  count that is not negative, and for every interval.
\<close>

theorem generate_clamped:
  assumes "0 \<le> num_points"
  shows "\<exists>ts traffic air.
           generate_real_time_data now z num_points interval_minutes =
             Inr [(Time, TimeCol ts), (Traffic_Density, NumCol traffic), (PM2_5, NumCol air)]
         \<and> length traffic = nat num_points
         \<and> length air = nat num_points
         \<and> (\<forall>x \<in> set traffic. 20 \<le> x \<and> x \<le> 100)
         \<and> (\<forall>x \<in> set air. 10 \<le> x \<and> x \<le> 80)
         \<and> (\<forall>i. i < nat num_points \<longrightarrow>
                traffic ! i =
                  (if 50 + 10 * z i < 20 then 20
                   else if 100 < 50 + 10 * z i then 100 else 50 + 10 * z i))
         \<and> (\<forall>i. i < nat num_points \<longrightarrow>
                air ! i =
                  (if 35 + 8 * z (i + nat num_points) < 10 then 10
                   else if 80 < 35 + 8 * z (i + nat num_points) then 80
                   else 35 + 8 * z (i + nat num_points)))"
proof -
  let ?n = "nat num_points"
  let ?ts = "sort (map (\<lambda>k. now - timedelta (interval_minutes * int k)) [0..<?n])"
  let ?tr = "clip (map (\<lambda>k. 50 + 10 * z k) [0..<?n]) 20 100"
  let ?aq = "clip (map (\<lambda>k. 35 + 8 * z (k + ?n)) [0..<?n]) 10 80"
  have res: "generate_real_time_data now z num_points interval_minutes =
      Inr [(Time, TimeCol ?ts), (Traffic_Density, NumCol ?tr), (PM2_5, NumCol ?aq)]"
    using assms by (simp add: generate_result historical_def)
  show ?thesis
  proof (intro exI conjI)
    show "generate_real_time_data now z num_points interval_minutes =
      Inr [(Time, TimeCol ?ts), (Traffic_Density, NumCol ?tr), (PM2_5, NumCol ?aq)]"
      by (rule res)
    show "length ?tr = ?n" by (simp add: clip_def)
    show "length ?aq = ?n" by (simp add: clip_def)
    show "\<forall>x \<in> set ?tr. 20 \<le> x \<and> x \<le> 100"
      using clip_bounds [of 20 100] by simp
    show "\<forall>x \<in> set ?aq. 10 \<le> x \<and> x \<le> 80"
      using clip_bounds [of 10 80] by simp
    show "\<forall>i. i < ?n \<longrightarrow> ?tr ! i =
        (if 50 + 10 * z i < 20 then 20
         else if 100 < 50 + 10 * z i then 100 else 50 + 10 * z i)"
      by (simp add: clip_nth)
    show "\<forall>i. i < ?n \<longrightarrow> ?aq ! i =
        (if 35 + 8 * z (i + ?n) < 10 then 10
         else if 80 < 35 + 8 * z (i + ?n) then 80 else 35 + 8 * z (i + ?n))"
      by (simp add: clip_nth)
  qed
qed

theorem generate_clamped_witness:
  "(0::int) \<le> 2 \<and>
   (\<exists>ts traffic air.
      generate_real_time_data 0 (\<lambda>i. if i = 0 then 9 else - 4) 2 5 =
        Inr [(Time, TimeCol ts), (Traffic_Density, NumCol traffic), (PM2_5, NumCol air)]
    \<and> length traffic = nat 2
    \<and> length air = nat 2
    \<and> traffic ! 0 = 100 \<and> traffic ! 1 = 20 \<and> air ! 0 = 10 \<and> air ! 1 = 10)"
proof -
  have h: "(0::int) \<le> 2" by simp
  have two: "(0::nat) < nat 2" "(1::nat) < nat 2" by simp_all
  from generate_clamped [OF h, where now = 0 and z = "\<lambda>i. if i = 0 then 9 else - 4"
      and interval_minutes = 5]
  obtain ts traffic air where
    res: "generate_real_time_data 0 (\<lambda>i. if i = 0 then 9 else - 4) 2 5 =
        Inr [(Time, TimeCol ts), (Traffic_Density, NumCol traffic), (PM2_5, NumCol air)]"
    and len: "length traffic = nat 2" "length air = nat 2"
    and tr: "\<forall>i. i < nat 2 \<longrightarrow> traffic ! i =
        (if 50 + 10 * (if i = 0 then 9 else - 4) < (20::real) then 20
         else if 100 < 50 + 10 * (if i = 0 then 9 else - 4 :: real) then 100
         else 50 + 10 * (if i = 0 then 9 else - 4))"
    and aq: "\<forall>i. i < nat 2 \<longrightarrow> air ! i =
        (if 35 + 8 * (if i + nat 2 = 0 then 9 else - 4) < (10::real) then 10
         else if 80 < 35 + 8 * (if i + nat 2 = 0 then 9 else - 4 :: real) then 80
         else 35 + 8 * (if i + nat 2 = 0 then 9 else - 4))"
    by blast
  have "traffic ! 0 = 100" "traffic ! 1 = 20"
    using tr two by simp_all
  moreover have "air ! 0 = 10" "air ! 1 = 10"
    using aq two by simp_all
  ultimately show ?thesis
    using h res len by blast
qed

text \<open>
  Claim C9. With \<open>num_points = 0\<close> the generator raises nothing: it returns the table
  with the three columns Time, Traffic Density and PM2.5 and no row. No check rejects
  the count.
\<close>

theorem generate_zero:
  "generate_real_time_data now z 0 interval_minutes =
     Inr [(Time, TimeCol []), (Traffic_Density, NumCol []), (PM2_5, NumCol [])]"
  by (simp add: generate_result historical_def clip_def)

section \<open>The scenario table\<close>

text \<open>
  Claim C4. For a history table held in the store and a signal cycle other than zero (the
  slider delivers 30 to 120), the block returns a table whose column Simulated Traffic
  Density is, entry by entry, the traffic column times \<open>60 / timing_adjustment\<close>. At a
  cycle of 60 the column equals the traffic column; at a cycle of 30 every entry is twice
  the traffic entry.
\<close>

theorem simulate_traffic:
  assumes "df_rt < length s" and "s ! df_rt = historical ts traffic air"
    and "timing_adjustment \<noteq> 0"
  shows "\<exists>df_sim sim.
           simulate_output s df_rt timing_adjustment green_zone_effect = Inr df_sim
         \<and> getitem df_sim Simulated_Traffic_Density = Inr (NumCol sim)
         \<and> length sim = length traffic
         \<and> (\<forall>i. i < length traffic \<longrightarrow>
                sim ! i = traffic ! i * (60 / real_of_int timing_adjustment))
         \<and> (timing_adjustment = 60 \<longrightarrow> sim = traffic)
         \<and> (timing_adjustment = 30 \<longrightarrow> (\<forall>i. i < length traffic \<longrightarrow> sim ! i = 2 * traffic ! i))"
proof -
  let ?sim = "map (\<lambda>x. x * (60 / real_of_int timing_adjustment)) traffic"
  let ?out = "historical ts traffic air @
           [(Simulated_Traffic_Density, NumCol ?sim),
            (Simulated_PM2_5, NumCol (map (\<lambda>x. x * (1 - real_of_int green_zone_effect / 100)) air))]"
  show ?thesis
  proof (intro exI conjI)
    show "simulate_output s df_rt timing_adjustment green_zone_effect = Inr ?out"
      by (rule simulate_output_result [OF assms])
    show "getitem ?out Simulated_Traffic_Density = Inr (NumCol ?sim)"
      by (simp add: getitem_def historical_def)
    show "length ?sim = length traffic" by simp
    show "\<forall>i. i < length traffic \<longrightarrow>
        ?sim ! i = traffic ! i * (60 / real_of_int timing_adjustment)"
      by simp
    show "timing_adjustment = 60 \<longrightarrow> ?sim = traffic"
      by simp
    show "timing_adjustment = 30 \<longrightarrow> (\<forall>i. i < length traffic \<longrightarrow> ?sim ! i = 2 * traffic ! i)"
      by simp
  qed
qed

theorem simulate_traffic_witness:
  "(0::nat) < length [historical [0, 300000000] [50, 60] [35, 40]] \<and>
   [historical [0, 300000000] [50, 60] [35, 40]] ! 0 = historical [0, 300000000] [50, 60] [35, 40] \<and>
   (30::int) \<noteq> 0 \<and>
   (\<exists>df_sim sim.
      simulate_output [historical [0, 300000000] [50, 60] [35, 40]] 0 30 10 = Inr df_sim
    \<and> getitem df_sim Simulated_Traffic_Density = Inr (NumCol sim)
    \<and> length sim = length [50, 60 :: real]
    \<and> (\<forall>i. i < length [50, 60 :: real] \<longrightarrow> sim ! i = [50, 60] ! i * (60 / real_of_int 30))
    \<and> ((30::int) = 60 \<longrightarrow> sim = [50, 60])
    \<and> ((30::int) = 30 \<longrightarrow> (\<forall>i. i < length [50, 60 :: real] \<longrightarrow> sim ! i = 2 * [50, 60] ! i)))"
proof -
  have h1: "(0::nat) < length [historical [0, 300000000] [50, 60] [35, 40]]" by simp
  have h2: "[historical [0, 300000000] [50, 60] [35, 40]] ! 0 = historical [0, 300000000] [50, 60] [35, 40]" by simp
  have h3: "(30::int) \<noteq> 0" by simp
  show ?thesis
    using h1 h2 h3 simulate_traffic [OF h1 h2 h3, where green_zone_effect = 10] by blast
qed

text \<open>
  Claim C5. For a history table held in the store (and a signal cycle other than zero, so
  that line 117 does not raise before line 129 is reached), the block returns a table whose
  column Simulated PM2.5 is, entry by entry, the air quality column times
  \<open>1 - green_zone_effect / 100\<close>. At an effectiveness of 0 the column equals the air
  quality column; at 50 every entry is half the air quality entry.
\<close>

theorem simulate_air_quality:
  assumes "df_rt < length s" and "s ! df_rt = historical ts traffic air"
    and "timing_adjustment \<noteq> 0"
  shows "\<exists>df_sim sim.
           simulate_output s df_rt timing_adjustment green_zone_effect = Inr df_sim
         \<and> getitem df_sim Simulated_PM2_5 = Inr (NumCol sim)
         \<and> length sim = length air
         \<and> (\<forall>i. i < length air \<longrightarrow>
                sim ! i = air ! i * (1 - real_of_int green_zone_effect / 100))
         \<and> (green_zone_effect = 0 \<longrightarrow> sim = air)
         \<and> (green_zone_effect = 50 \<longrightarrow> (\<forall>i. i < length air \<longrightarrow> sim ! i = air ! i / 2))"
proof -
  let ?sim = "map (\<lambda>x. x * (1 - real_of_int green_zone_effect / 100)) air"
  let ?out = "historical ts traffic air @
           [(Simulated_Traffic_Density,
               NumCol (map (\<lambda>x. x * (60 / real_of_int timing_adjustment)) traffic)),
            (Simulated_PM2_5, NumCol ?sim)]"
  show ?thesis
  proof (intro exI conjI)
    show "simulate_output s df_rt timing_adjustment green_zone_effect = Inr ?out"
      by (rule simulate_output_result [OF assms])
    show "getitem ?out Simulated_PM2_5 = Inr (NumCol ?sim)"
      by (simp add: getitem_def historical_def)
    show "length ?sim = length air" by simp
    show "\<forall>i. i < length air \<longrightarrow>
        ?sim ! i = air ! i * (1 - real_of_int green_zone_effect / 100)"
      by simp
    show "green_zone_effect = 0 \<longrightarrow> ?sim = air"
      by simp
    show "green_zone_effect = 50 \<longrightarrow> (\<forall>i. i < length air \<longrightarrow> ?sim ! i = air ! i / 2)"
      by simp
  qed
qed

theorem simulate_air_quality_witness:
  "(0::nat) < length [historical [0, 300000000] [50, 60] [35, 40]] \<and>
   [historical [0, 300000000] [50, 60] [35, 40]] ! 0 = historical [0, 300000000] [50, 60] [35, 40] \<and>
   (60::int) \<noteq> 0 \<and>
   (\<exists>df_sim sim.
      simulate_output [historical [0, 300000000] [50, 60] [35, 40]] 0 60 50 = Inr df_sim
    \<and> getitem df_sim Simulated_PM2_5 = Inr (NumCol sim)
    \<and> length sim = length [35, 40 :: real]
    \<and> (\<forall>i. i < length [35, 40 :: real] \<longrightarrow> sim ! i = [35, 40] ! i * (1 - real_of_int 50 / 100))
    \<and> ((50::int) = 0 \<longrightarrow> sim = [35, 40])
    \<and> ((50::int) = 50 \<longrightarrow> (\<forall>i. i < length [35, 40 :: real] \<longrightarrow> sim ! i = [35, 40] ! i / 2)))"
proof -
  have h1: "(0::nat) < length [historical [0, 300000000] [50, 60] [35, 40]]" by simp
  have h2: "[historical [0, 300000000] [50, 60] [35, 40]] ! 0 = historical [0, 300000000] [50, 60] [35, 40]" by simp
  have h3: "(60::int) \<noteq> 0" by simp
  show ?thesis
    using h1 h2 h3 simulate_air_quality [OF h1 h2 h3, where green_zone_effect = 50] by blast
qed

text \<open>
  Claim C6. For every history table and all parameters that the two sliders deliver, the
  block returns a new table, distinct from the input, that consists of the three columns
  of the input, unchanged and in their order, followed by exactly two derived columns,
  each as long as the column it derives from. Every table that existed before the block,
  the input table among them, is left unmodified.
\<close>

theorem simulate_never_mutates:
  assumes "df_rt < length s" and "s ! df_rt = historical ts traffic air"
    and "st_slider 30 120 5 timing_adjustment" and "st_slider 0 50 5 green_zone_effect"
  shows "\<exists>df_sim sim_traffic sim_air.
           simulate s df_rt timing_adjustment green_zone_effect =
             (Inr df_sim,
              s @ [[(Time, TimeCol ts), (Traffic_Density, NumCol traffic), (PM2_5, NumCol air),
                    (Simulated_Traffic_Density, NumCol sim_traffic),
                    (Simulated_PM2_5, NumCol sim_air)]])
         \<and> df_sim = length s
         \<and> df_sim \<noteq> df_rt
         \<and> length sim_traffic = length traffic
         \<and> length sim_air = length air
         \<and> (\<forall>j. j < length s \<longrightarrow>
                snd (simulate s df_rt timing_adjustment green_zone_effect) ! j = s ! j)"
proof -
  have t: "timing_adjustment \<noteq> 0"
    using assms(3) by (simp add: st_slider_def)
  have keep: "\<forall>j. j < length s \<longrightarrow>
      snd (simulate s df_rt timing_adjustment green_zone_effect) ! j = s ! j"
    using simulate_keeps_store(1) by blast
  show ?thesis
    using assms(1) keep simulate_result [OF assms(1,2) t, of green_zone_effect]
    by (simp add: historical_def)
qed

theorem simulate_never_mutates_witness:
  "(0::nat) < length [historical [0, 300000000] [50, 60] [35, 40]] \<and>
   [historical [0, 300000000] [50, 60] [35, 40]] ! 0 = historical [0, 300000000] [50, 60] [35, 40] \<and>
   st_slider 30 120 5 45 \<and> st_slider 0 50 5 10 \<and>
   (\<exists>df_sim sim_traffic sim_air.
      simulate [historical [0, 300000000] [50, 60] [35, 40]] 0 45 10 =
        (Inr df_sim,
         [historical [0, 300000000] [50, 60] [35, 40]] @
         [[(Time, TimeCol [0, 300000000]), (Traffic_Density, NumCol [50, 60]),
           (PM2_5, NumCol [35, 40]),
           (Simulated_Traffic_Density, NumCol sim_traffic),
           (Simulated_PM2_5, NumCol sim_air)]])
    \<and> df_sim = length [historical [0, 300000000] [50, 60] [35, 40]]
    \<and> df_sim \<noteq> 0
    \<and> length sim_traffic = length [50, 60 :: real]
    \<and> length sim_air = length [35, 40 :: real]
    \<and> (\<forall>j. j < length [historical [0, 300000000] [50, 60] [35, 40]] \<longrightarrow> snd (simulate [historical [0, 300000000] [50, 60] [35, 40]] 0 45 10) ! j = [historical [0, 300000000] [50, 60] [35, 40]] ! j))"
proof -
  have h1: "(0::nat) < length [historical [0, 300000000] [50, 60] [35, 40]]" by simp
  have h2: "[historical [0, 300000000] [50, 60] [35, 40]] ! 0 = historical [0, 300000000] [50, 60] [35, 40]" by simp
  have h3: "st_slider 30 120 5 45" by (simp add: st_slider_def)
  have h4: "st_slider 0 50 5 10" by (simp add: st_slider_def)
  show ?thesis
    using h1 h2 h3 h4 simulate_never_mutates [OF h1 h2 h3 h4] by blast
qed

text \<open>
  Claim C8. The output of the block (the contents of the table it returns, or the
  exception it raises) depends only on the contents of the input table and on the two
  parameters: two runs on stores that hold the same table under whatever references give
  the same output, and so does a second run made in the store the first run left behind.
\<close>

theorem simulate_deterministic:
  assumes "df_rt < length s" and "df_rt' < length s'" and "s' ! df_rt' = s ! df_rt"
  shows "simulate_output s' df_rt' timing_adjustment green_zone_effect =
           simulate_output s df_rt timing_adjustment green_zone_effect
       \<and> simulate_output (snd (simulate s df_rt timing_adjustment green_zone_effect))
             df_rt timing_adjustment green_zone_effect =
           simulate_output s df_rt timing_adjustment green_zone_effect"
proof
  show "simulate_output s' df_rt' timing_adjustment green_zone_effect =
           simulate_output s df_rt timing_adjustment green_zone_effect"
    using assms(3) simulate_output_content [of s' df_rt'] simulate_output_content [of s df_rt]
    by simp
next
  have "snd (simulate s df_rt timing_adjustment green_zone_effect) ! df_rt = s ! df_rt"
    using assms(1) by (rule simulate_keeps_store(1))
  then show "simulate_output (snd (simulate s df_rt timing_adjustment green_zone_effect))
             df_rt timing_adjustment green_zone_effect =
           simulate_output s df_rt timing_adjustment green_zone_effect"
    using simulate_output_content [of "snd (simulate s df_rt timing_adjustment green_zone_effect)" df_rt]
      simulate_output_content [of s df_rt]
    by simp
qed

theorem simulate_deterministic_witness:
  "(0::nat) < length [historical [0, 300000000] [50, 60] [35, 40]] \<and>
   (1::nat) < length [[], historical [0, 300000000] [50, 60] [35, 40]] \<and>
   [[], historical [0, 300000000] [50, 60] [35, 40]] ! 1 = [historical [0, 300000000] [50, 60] [35, 40]] ! 0 \<and>
   simulate_output [[], historical [0, 300000000] [50, 60] [35, 40]] 1 30 50 =
     simulate_output [historical [0, 300000000] [50, 60] [35, 40]] 0 30 50 \<and>
   simulate_output (snd (simulate [historical [0, 300000000] [50, 60] [35, 40]] 0 30 50)) 0 30 50 = simulate_output [historical [0, 300000000] [50, 60] [35, 40]] 0 30 50"
proof -
  have h1: "(0::nat) < length [historical [0, 300000000] [50, 60] [35, 40]]" by simp
  have h2: "(1::nat) < length [[], historical [0, 300000000] [50, 60] [35, 40]]" by simp
  have h3: "[[], historical [0, 300000000] [50, 60] [35, 40]] ! 1 = [historical [0, 300000000] [50, 60] [35, 40]] ! 0" by simp
  show ?thesis
    using h1 h2 h3
      simulate_deterministic [OF h1 h2 h3, where timing_adjustment = 30 and green_zone_effect = 50]
    by blast
qed

end
